theory Spec2Isabelle
  imports Main "HOL-Library.Sublist"
begin

section \<open>Pairwise dispatch of \<open>kl_divergence\<close> (torch/distributions/kl.py)\<close>

text \<open>
  The module keeps two dictionaries, \<open>_KL_REGISTRY\<close> and \<open>_KL_MEMOIZE\<close>, registers
  handlers with \<open>register_kl\<close>, resolves a pair of runtime types with \<open>_dispatch_kl\<close> and
  calls the resolved handler in \<open>kl_divergence\<close>. Python names that start with an
  underscore lose it here (\<open>_Match\<close> is \<open>Match\<close>, \<open>_dispatch_kl\<close> is \<open>dispatch_kl\<close>).

  What the module takes from its surroundings is a parameter of the model:
  \<^item> \<open>sub x y\<close> is Python's \<open>issubclass(x, y)\<close> on two classes;
  \<^item> \<open>nm t\<close> is \<open>t.__name__\<close>, \<open>fmt t\<close> is \<open>'{}'.format(t)\<close>;
  \<^item> \<open>type_of p\<close> is \<open>type(p)\<close>, \<open>invoke f p q\<close> is the call \<open>f(p, q)\<close>;
  \<^item> \<open>D\<close> is the class \<open>Distribution\<close>.
  Classes are tokens of a type \<open>'ty\<close> and handlers (function objects) tokens of a type
  \<open>'h\<close>: Python's \<open>is\<close> on them is equality of tokens.
\<close>

subsection \<open>Values\<close>

text \<open>Exceptions, with the message they carry (\<open>raise NotImplementedError\<close> has none).\<close>

datatype error = TypeError string | NotImplementedError string | KeyError | ValueError

text \<open>
  A call of \<open>warnings.warn\<close> adds its warning to the list of warnings emitted; what the
  filters of the process then do with it is outside the module.
\<close>

datatype warning = RuntimeWarning string

text \<open>
  An argument of \<open>register_kl\<close> is any Python object: a class, or an object that is not
  a class (objects that are no class and still carry \<open>__bases__\<close> are left out).
\<close>

datatype 'ty pyobj = TypeObj 'ty | NonType

text \<open>What \<open>_dispatch_kl\<close> returns and \<open>_KL_MEMOIZE\<close> stores: a function or \<open>NotImplemented\<close>.\<close>

datatype 'h resolution = NotImplemented | Handler 'h

subsection \<open>Dictionaries\<close>

text \<open>
  \<open>_KL_REGISTRY\<close> is iterated, so it is an association list in iteration order with one
  entry per key: assigning to a key it holds replaces the value in place, a new key goes
  to the end (the insertion order of Python 3.7). The resolver is defined on any such
  list, so on any iteration order. \<open>_KL_MEMOIZE\<close> is only read and written by key, so it
  is a map.
\<close>

type_synonym ('ty, 'h) registry = "(('ty \<times> 'ty) \<times> 'h) list"

type_synonym ('ty, 'h) memoize = "('ty \<times> 'ty) \<rightharpoonup> 'h resolution"

record ('ty, 'h) engine =
  KL_REGISTRY :: "('ty, 'h) registry"
  KL_MEMOIZE :: "('ty, 'h) memoize"

definition initial :: "('ty, 'h) engine" where
  "initial = \<lparr>KL_REGISTRY = [], KL_MEMOIZE = Map.empty\<rparr>"

fun dict_setitem :: "('k \<times> 'v) list \<Rightarrow> 'k \<Rightarrow> 'v \<Rightarrow> ('k \<times> 'v) list" where
  "dict_setitem [] k v = [(k, v)]"
| "dict_setitem ((k', v') # d) k v =
     (if k' = k then (k', v) # d else (k', v') # dict_setitem d k v)"

definition dict_getitem :: "('k \<times> 'v) list \<Rightarrow> 'k \<Rightarrow> error + 'v" where
  "dict_getitem d k = (case map_of d k of None \<Rightarrow> Inl KeyError | Some v \<Rightarrow> Inr v)"

subsection \<open>\<open>register_kl\<close>\<close>

definition isinstance_type :: "'ty pyobj \<Rightarrow> bool" where
  "isinstance_type x = (case x of TypeObj _ \<Rightarrow> True | NonType \<Rightarrow> False)"

text \<open>
  One of the two checks at the head of \<open>register_kl\<close>:
  \<^verbatim>\<open>if not isinstance(type_p, type) and issubclass(type_p, Distribution): raise TypeError(..)\<close>.
  \<open>not\<close> binds tighter than \<open>and\<close>. On a class \<open>issubclass\<close> returns a truth value; on
  an object that is not a class the left conjunct holds, \<open>issubclass\<close> is evaluated and
  raises its own \<open>TypeError\<close>. The check returns the class that goes on.
\<close>

definition check_type_arg ::
  "('ty \<Rightarrow> 'ty \<Rightarrow> bool) \<Rightarrow> ('ty \<Rightarrow> string) \<Rightarrow> 'ty \<Rightarrow> string \<Rightarrow> 'ty pyobj \<Rightarrow> error + 'ty" where
  "check_type_arg sub fmt D arg x =
     (case x of
        TypeObj t \<Rightarrow>
          if \<not> isinstance_type x \<and> sub t D
          then Inl (TypeError (''Expected '' @ arg @ '' to be a Distribution subclass but got '' @ fmt t))
          else Inr t
      | NonType \<Rightarrow> Inl (TypeError ''issubclass() arg 1 must be a class''))"

text \<open>\<open>register_kl(type_p, type_q)\<close> returns the decorator, a closure over the two classes.\<close>

definition register_kl ::
  "('ty \<Rightarrow> 'ty \<Rightarrow> bool) \<Rightarrow> ('ty \<Rightarrow> string) \<Rightarrow> 'ty \<Rightarrow> 'ty pyobj \<Rightarrow> 'ty pyobj \<Rightarrow> error + ('ty \<times> 'ty)" where
  "register_kl sub fmt D type_p type_q =
     (case check_type_arg sub fmt D ''type_p'' type_p of
        Inl e \<Rightarrow> Inl e
      | Inr tp \<Rightarrow>
          (case check_type_arg sub fmt D ''type_q'' type_q of
             Inl e \<Rightarrow> Inl e
           | Inr tq \<Rightarrow> Inr (tp, tq)))"

text \<open>The decorator: store the function under the pair, clear the memo, return the function.\<close>

definition decorator :: "('ty \<times> 'ty) \<Rightarrow> 'h \<Rightarrow> ('ty, 'h) engine \<Rightarrow> 'h \<times> ('ty, 'h) engine" where
  "decorator key f s =
     (f, s\<lparr>KL_REGISTRY := dict_setitem (KL_REGISTRY s) key f, KL_MEMOIZE := Map.empty\<rparr>)"

text \<open>The whole statement \<open>register_kl(type_p, type_q)(f)\<close>; an exception leaves the state.\<close>

definition register_call ::
  "('ty \<Rightarrow> 'ty \<Rightarrow> bool) \<Rightarrow> ('ty \<Rightarrow> string) \<Rightarrow> 'ty \<Rightarrow> 'ty pyobj \<Rightarrow> 'ty pyobj \<Rightarrow> 'h \<Rightarrow>
     ('ty, 'h) engine \<Rightarrow> (error + 'h) \<times> ('ty, 'h) engine" where
  "register_call sub fmt D type_p type_q f s =
     (case register_kl sub fmt D type_p type_q of
        Inl e \<Rightarrow> (Inl e, s)
      | Inr key \<Rightarrow> (case decorator key f s of (g, s') \<Rightarrow> (Inr g, s')))"

subsection \<open>\<open>_Match\<close>\<close>

datatype 'ty Match = Match (types: "'ty list")

definition Match_eq :: "'ty Match \<Rightarrow> 'ty Match \<Rightarrow> bool" where
  "Match_eq self other = (types self = types other)"

text \<open>The loop of \<open>__le__\<close> over \<open>zip(self.types, other.types)\<close>.\<close>

fun le_loop :: "('ty \<Rightarrow> 'ty \<Rightarrow> bool) \<Rightarrow> ('ty \<times> 'ty) list \<Rightarrow> bool" where
  "le_loop sub [] = True"
| "le_loop sub ((x, y) # rest) =
     (if \<not> sub x y then False else if x \<noteq> y then True else le_loop sub rest)"

definition Match_le :: "('ty \<Rightarrow> 'ty \<Rightarrow> bool) \<Rightarrow> 'ty Match \<Rightarrow> 'ty Match \<Rightarrow> bool" where
  "Match_le sub self other = le_loop sub (zip (types self) (types other))"

text \<open>\<open>__lt__\<close> as \<open>functools.total_ordering\<close> derives it: \<open>self <= other and self != other\<close>.\<close>

definition Match_lt :: "('ty \<Rightarrow> 'ty \<Rightarrow> bool) \<Rightarrow> 'ty Match \<Rightarrow> 'ty Match \<Rightarrow> bool" where
  "Match_lt sub self other = (Match_le sub self other \<and> \<not> Match_eq self other)"

subsection \<open>\<open>min\<close>\<close>

text \<open>
  The builtin keeps the first item and replaces it by each later item that is \<open><\<close> the
  one kept; on an empty iterable it raises \<open>ValueError\<close>.
\<close>

fun min_loop :: "('a \<Rightarrow> 'a \<Rightarrow> bool) \<Rightarrow> 'a \<Rightarrow> 'a list \<Rightarrow> 'a" where
  "min_loop lt cur [] = cur"
| "min_loop lt cur (item # rest) = min_loop lt (if lt item cur then item else cur) rest"

definition py_min :: "('a \<Rightarrow> 'a \<Rightarrow> bool) \<Rightarrow> 'a list \<Rightarrow> error + 'a" where
  "py_min lt xs = (case xs of [] \<Rightarrow> Inl ValueError | x # rest \<Rightarrow> Inr (min_loop lt x rest))"

text \<open>Unpacking a tuple into two names.\<close>

fun unpack2 :: "'a list \<Rightarrow> error + ('a \<times> 'a)" where
  "unpack2 [a, b] = Inr (a, b)"
| "unpack2 _ = Inl ValueError"

subsection \<open>\<open>_dispatch_kl\<close>\<close>

text \<open>The list comprehension: the registered pairs that are supertypes of the query.\<close>

definition matches_of ::
  "('ty \<Rightarrow> 'ty \<Rightarrow> bool) \<Rightarrow> ('ty, 'h) registry \<Rightarrow> 'ty \<Rightarrow> 'ty \<Rightarrow> ('ty \<times> 'ty) list" where
  "matches_of sub REG type_p type_q =
     filter (\<lambda>(super_p, super_q). sub type_p super_p \<and> sub type_q super_q) (map fst REG)"

definition ambiguous_msg :: "string \<Rightarrow> string \<Rightarrow> string \<Rightarrow> string \<Rightarrow> string" where
  "ambiguous_msg a b c d =
     ''Ambiguous kl_divergence('' @ a @ '', '' @ b @ ''). Please register_kl('' @ c @ '', '' @ d @ '')''"

definition dispatch_kl ::
  "('ty \<Rightarrow> 'ty \<Rightarrow> bool) \<Rightarrow> ('ty \<Rightarrow> string) \<Rightarrow> ('ty, 'h) registry \<Rightarrow> 'ty \<Rightarrow> 'ty \<Rightarrow>
     (error + 'h resolution) \<times> warning list" where
  "dispatch_kl sub nm REG type_p type_q =
     (let matches = matches_of sub REG type_p type_q in
      if matches = [] then (Inr NotImplemented, [])
      else
        (case py_min (Match_lt sub) (map (\<lambda>(a, b). Match [a, b]) matches) of
           Inl e \<Rightarrow> (Inl e, [])
         | Inr left \<Rightarrow>
        (case unpack2 (types left) of
           Inl e \<Rightarrow> (Inl e, [])
         | Inr (left_p, left_q) \<Rightarrow>
        (case py_min (Match_lt sub) (map (\<lambda>(a, b). Match [b, a]) matches) of
           Inl e \<Rightarrow> (Inl e, [])
         | Inr right \<Rightarrow>
        (case unpack2 (types right) of
           Inl e \<Rightarrow> (Inl e, [])
         | Inr (right_q, right_p) \<Rightarrow>
        (case dict_getitem REG (left_p, left_q) of
           Inl e \<Rightarrow> (Inl e, [])
         | Inr left_fun \<Rightarrow>
        (case dict_getitem REG (right_p, right_q) of
           Inl e \<Rightarrow> (Inl e, [])
         | Inr right_fun \<Rightarrow>
            (Inr (Handler left_fun),
             if left_fun \<noteq> right_fun
             then [RuntimeWarning (ambiguous_msg (nm type_p) (nm type_q) (nm left_p) (nm right_q))]
             else []))))))))"

subsection \<open>\<open>kl_divergence\<close>\<close>

text \<open>
  The \<open>try ... except KeyError\<close> block: the memo entry of the pair of runtime types, or
  on a miss the result of \<open>_dispatch_kl\<close>, stored in the memo.
\<close>

definition memo_lookup ::
  "('ty \<Rightarrow> 'ty \<Rightarrow> bool) \<Rightarrow> ('ty \<Rightarrow> string) \<Rightarrow> 'ty \<Rightarrow> 'ty \<Rightarrow> ('ty, 'h) engine \<Rightarrow>
     (error + 'h resolution) \<times> warning list \<times> ('ty, 'h) engine" where
  "memo_lookup sub nm tp tq s =
     (case KL_MEMOIZE s (tp, tq) of
        Some f \<Rightarrow> (Inr f, [], s)
      | None \<Rightarrow>
          (case dispatch_kl sub nm (KL_REGISTRY s) tp tq of
             (Inl e, ws) \<Rightarrow> (Inl e, ws, s)
           | (Inr f, ws) \<Rightarrow> (Inr f, ws, s\<lparr>KL_MEMOIZE := (KL_MEMOIZE s)((tp, tq) \<mapsto> f)\<rparr>)))"

definition kl_divergence ::
  "('ty \<Rightarrow> 'ty \<Rightarrow> bool) \<Rightarrow> ('ty \<Rightarrow> string) \<Rightarrow> ('i \<Rightarrow> 'ty) \<Rightarrow> ('h \<Rightarrow> 'i \<Rightarrow> 'i \<Rightarrow> 'r) \<Rightarrow>
     'i \<Rightarrow> 'i \<Rightarrow> ('ty, 'h) engine \<Rightarrow> (error + 'r) \<times> warning list \<times> ('ty, 'h) engine" where
  "kl_divergence sub nm type_of invoke p q s =
     (case memo_lookup sub nm (type_of p) (type_of q) s of
        (Inl e, ws, s') \<Rightarrow> (Inl e, ws, s')
      | (Inr NotImplemented, ws, s') \<Rightarrow> (Inl (NotImplementedError ''''), ws, s')
      | (Inr (Handler f), ws, s') \<Rightarrow> (Inr (invoke f p q), ws, s'))"

subsection \<open>States of the engine\<close>

text \<open>
  Every memo entry is what \<open>_dispatch_kl\<close> returns for its key on the present registry.
\<close>

definition memo_coherent ::
  "('ty \<Rightarrow> 'ty \<Rightarrow> bool) \<Rightarrow> ('ty \<Rightarrow> string) \<Rightarrow> ('ty, 'h) engine \<Rightarrow> bool" where
  "memo_coherent sub nm s =
     (\<forall>tp tq f. KL_MEMOIZE s (tp, tq) = Some f \<longrightarrow>
        fst (dispatch_kl sub nm (KL_REGISTRY s) tp tq) = Inr f)"

text \<open>
  The states a program reaches from the empty dictionaries by registrations and by calls
  of \<open>kl_divergence\<close>.
\<close>

inductive reachable ::
  "('ty \<Rightarrow> 'ty \<Rightarrow> bool) \<Rightarrow> ('ty \<Rightarrow> string) \<Rightarrow> ('ty \<Rightarrow> string) \<Rightarrow> 'ty \<Rightarrow> ('ty, 'h) engine \<Rightarrow> bool"
  for sub :: "'ty \<Rightarrow> 'ty \<Rightarrow> bool" and nm :: "'ty \<Rightarrow> string" and fmt :: "'ty \<Rightarrow> string" and D :: 'ty
where
  reachable_initial: "reachable sub nm fmt D initial"
| reachable_register:
    "reachable sub nm fmt D s \<Longrightarrow> register_call sub fmt D x y f s = (r, s') \<Longrightarrow>
     reachable sub nm fmt D s'"
| reachable_lookup:
    "reachable sub nm fmt D s \<Longrightarrow> memo_lookup sub nm tp tq s = (r, ws, s') \<Longrightarrow>
     reachable sub nm fmt D s'"

subsection \<open>A small class hierarchy\<close>

text \<open>
  The classes of the docstring of \<open>register_kl\<close>, under \<open>Distribution\<close>, and \<open>int\<close>,
  which is no distribution; each with its method resolution order, which is what
  \<open>issubclass\<close> walks.
\<close>

datatype cls = PyObject | PyInt | Distribution | BaseP | DerivedP | BaseQ | DerivedQ

fun example_mro :: "cls \<Rightarrow> cls list" where
  "example_mro PyObject = [PyObject]"
| "example_mro PyInt = [PyInt, PyObject]"
| "example_mro Distribution = [Distribution, PyObject]"
| "example_mro BaseP = [BaseP, Distribution, PyObject]"
| "example_mro DerivedP = [DerivedP, BaseP, Distribution, PyObject]"
| "example_mro BaseQ = [BaseQ, Distribution, PyObject]"
| "example_mro DerivedQ = [DerivedQ, BaseQ, Distribution, PyObject]"

definition example_issubclass :: "cls \<Rightarrow> cls \<Rightarrow> bool" where
  "example_issubclass x y = (y \<in> set (example_mro x))"

fun example_name :: "cls \<Rightarrow> string" where
  "example_name PyObject = ''object''"
| "example_name PyInt = ''int''"
| "example_name Distribution = ''Distribution''"
| "example_name BaseP = ''BaseP''"
| "example_name DerivedP = ''DerivedP''"
| "example_name BaseQ = ''BaseQ''"
| "example_name DerivedQ = ''DerivedQ''"

text \<open>\<open>'{}'.format\<close> of a class, as in \<^verbatim>\<open><class 'int'>\<close>.\<close>

definition example_fmt :: "cls \<Rightarrow> string" where
  "example_fmt t = ''<class '' @ [CHR 0x27] @ example_name t @ [CHR 0x27] @ ''>''"

text \<open>Three function objects, instances that carry their class, and a call that is recorded.\<close>

datatype handler = kl_version1 | kl_version2 | kl_version3

datatype inst = Inst cls

fun example_type :: "inst \<Rightarrow> cls" where
  "example_type (Inst c) = c"

definition example_invoke :: "handler \<Rightarrow> inst \<Rightarrow> inst \<Rightarrow> handler \<times> inst \<times> inst" where
  "example_invoke f p q = (f, p, q)"

text \<open>The registry of the docstring: two crossed rules.\<close>

definition crossed :: "(cls, handler) engine" where
  "crossed =
     \<lparr>KL_REGISTRY = [((BaseP, DerivedQ), kl_version1), ((DerivedP, BaseQ), kl_version2)],
      KL_MEMOIZE = Map.empty\<rparr>"

section \<open>Auxiliary facts\<close>

lemma example_issubclass_refl: "reflp example_issubclass"
  by (rule reflpI, case_tac x) (simp_all add: example_issubclass_def)

lemma example_issubclass_antisym: "antisymp example_issubclass"
  by (rule antisympI, case_tac x; case_tac y) (simp_all add: example_issubclass_def)

lemma map_of_dict_setitem: "map_of (dict_setitem d k v) = (map_of d)(k \<mapsto> v)"
  by (induction d) (auto simp: fun_eq_iff)

lemma keys_dict_setitem_old:
  "k \<in> fst ` set d \<Longrightarrow> map fst (dict_setitem d k v) = map fst d"
  by (induction d) force+

lemma keys_dict_setitem_new:
  "k \<notin> fst ` set d \<Longrightarrow> map fst (dict_setitem d k v) = map fst d @ [k]"
  by (induction d) auto

lemma distinct_dict_setitem:
  "distinct (map fst d) \<Longrightarrow> distinct (map fst (dict_setitem d k v))"
  by (cases "k \<in> fst ` set d") (simp_all add: keys_dict_setitem_old keys_dict_setitem_new)

lemma min_loop_mem: "min_loop lt c xs \<in> set (c # xs)"
  by (induction xs arbitrary: c) (auto split: if_splits)

lemma min_loop_least:
  assumes "m \<in> set (c # xs)"
    and "\<And>x. x \<in> set (c # xs) \<Longrightarrow> x \<noteq> m \<Longrightarrow> lt m x"
    and "\<And>x. x \<in> set (c # xs) \<Longrightarrow> \<not> lt x m"
  shows "min_loop lt c xs = m"
  using assms
proof (induction xs arbitrary: c)
  case Nil
  then show ?case by simp
next
  case (Cons item rest)
  let ?c = "if lt item c then item else c"
  have "min_loop lt ?c rest = m"
  proof (rule Cons.IH)
    show "m \<in> set (?c # rest)"
      using Cons.prems by (auto split: if_splits)
    show "\<And>x. x \<in> set (?c # rest) \<Longrightarrow> x \<noteq> m \<Longrightarrow> lt m x"
      using Cons.prems(2) by (auto split: if_splits)
    show "\<And>x. x \<in> set (?c # rest) \<Longrightarrow> \<not> lt x m"
      using Cons.prems(3) by (auto split: if_splits)
  qed
  then show ?case by simp
qed

lemma py_min_mem: "xs \<noteq> [] \<Longrightarrow> \<exists>m. py_min lt xs = Inr m \<and> m \<in> set xs"
  using min_loop_mem [of lt] by (cases xs) (auto simp: py_min_def)

lemma matches_of_keys: "set (matches_of sub REG A B) \<subseteq> fst ` set REG"
  by (auto simp: matches_of_def)

lemma dict_getitem_key:
  "k \<in> fst ` set d \<Longrightarrow> \<exists>v. map_of d k = Some v \<and> dict_getitem d k = Inr v"
  by (cases "map_of d k") (auto simp: dict_getitem_def map_of_eq_None_iff)

lemma dispatch_kl_selects:
  assumes ne: "matches_of sub REG A B \<noteq> []"
  shows "\<exists>left_p left_q right_p right_q left_fun right_fun.
    py_min (Match_lt sub) (map (\<lambda>(a, b). Match [a, b]) (matches_of sub REG A B))
      = Inr (Match [left_p, left_q]) \<and>
    py_min (Match_lt sub) (map (\<lambda>(a, b). Match [b, a]) (matches_of sub REG A B))
      = Inr (Match [right_q, right_p]) \<and>
    (left_p, left_q) \<in> set (matches_of sub REG A B) \<and>
    (right_p, right_q) \<in> set (matches_of sub REG A B) \<and>
    map_of REG (left_p, left_q) = Some left_fun \<and>
    map_of REG (right_p, right_q) = Some right_fun \<and>
    dispatch_kl sub nm REG A B =
      (Inr (Handler left_fun),
       if left_fun \<noteq> right_fun
       then [RuntimeWarning (ambiguous_msg (nm A) (nm B) (nm left_p) (nm right_q))]
       else [])"
proof -
  let ?ms = "matches_of sub REG A B"
  from ne have "map (\<lambda>(a, b). Match [a, b]) ?ms \<noteq> []" by simp
  from py_min_mem [OF this, of "Match_lt sub"]
  obtain lp lq where l: "py_min (Match_lt sub) (map (\<lambda>(a, b). Match [a, b]) ?ms) = Inr (Match [lp, lq])"
    and lm: "(lp, lq) \<in> set ?ms"
    by auto
  from ne have "map (\<lambda>(a, b). Match [b, a]) ?ms \<noteq> []" by simp
  from py_min_mem [OF this, of "Match_lt sub"]
  obtain rp rq where r: "py_min (Match_lt sub) (map (\<lambda>(a, b). Match [b, a]) ?ms) = Inr (Match [rq, rp])"
    and rm: "(rp, rq) \<in> set ?ms"
    by auto
  from lm matches_of_keys [of sub REG A B] have "(lp, lq) \<in> fst ` set REG" by blast
  from dict_getitem_key [OF this]
  obtain lf where lf: "map_of REG (lp, lq) = Some lf" "dict_getitem REG (lp, lq) = Inr lf" by blast
  from rm matches_of_keys [of sub REG A B] have "(rp, rq) \<in> fst ` set REG" by blast
  from dict_getitem_key [OF this]
  obtain rf where rf: "map_of REG (rp, rq) = Some rf" "dict_getitem REG (rp, rq) = Inr rf" by blast
  have "dispatch_kl sub nm REG A B =
      (Inr (Handler lf),
       if lf \<noteq> rf then [RuntimeWarning (ambiguous_msg (nm A) (nm B) (nm lp) (nm rq))] else [])"
    using ne l r lf(2) rf(2) by (simp add: dispatch_kl_def)
  with l r lm rm lf(1) rf(1) show ?thesis by blast
qed

lemma ambiguous_msg_names:
  "sublist a (ambiguous_msg a b c d)" "sublist b (ambiguous_msg a b c d)"
  "sublist c (ambiguous_msg a b c d)" "sublist d (ambiguous_msg a b c d)"
proof -
  show "sublist a (ambiguous_msg a b c d)"
    unfolding ambiguous_msg_def by (rule sublist_appendI)
  have "ambiguous_msg a b c d = (''Ambiguous kl_divergence('' @ a @ '', '') @ b @
     (''). Please register_kl('' @ c @ '', '' @ d @ '')'')"
    by (simp add: ambiguous_msg_def)
  then show "sublist b (ambiguous_msg a b c d)"
    using sublist_appendI by metis
  have "ambiguous_msg a b c d = (''Ambiguous kl_divergence('' @ a @ '', '' @ b @
     ''). Please register_kl('') @ c @ ('', '' @ d @ '')'')"
    by (simp add: ambiguous_msg_def)
  then show "sublist c (ambiguous_msg a b c d)"
    using sublist_appendI by metis
  have "ambiguous_msg a b c d = (''Ambiguous kl_divergence('' @ a @ '', '' @ b @
     ''). Please register_kl('' @ c @ '', '') @ d @ '')''"
    by (simp add: ambiguous_msg_def)
  then show "sublist d (ambiguous_msg a b c d)"
    using sublist_appendI by metis
qed


lemma lt_exact:
  assumes "sub A P" "sub B Q" "(P, Q) \<noteq> (A, B)"
  shows "Match_lt sub (Match [A, B]) (Match [P, Q])"
    and "Match_lt sub (Match [B, A]) (Match [Q, P])"
  using assms by (auto simp: Match_lt_def Match_le_def Match_eq_def)

lemma not_lt_exact:
  assumes "antisymp sub" "sub A P" "sub B Q"
  shows "\<not> Match_lt sub (Match [P, Q]) (Match [A, B])"
    and "\<not> Match_lt sub (Match [Q, P]) (Match [B, A])"
  using assms by (auto simp: Match_lt_def Match_le_def Match_eq_def dest: antisympD)

lemma exact_is_min:
  assumes anti: "antisymp sub"
    and mem: "(A, B) \<in> set ms"
    and all: "\<And>P Q. (P, Q) \<in> set ms \<Longrightarrow> sub A P \<and> sub B Q"
  shows "py_min (Match_lt sub) (map (\<lambda>(a, b). Match [a, b]) ms) = Inr (Match [A, B])"
    and "py_min (Match_lt sub) (map (\<lambda>(a, b). Match [b, a]) ms) = Inr (Match [B, A])"
proof -
  from mem obtain c rest where ms: "ms = c # rest" by (cases ms) auto
  have "min_loop (Match_lt sub) ((\<lambda>(a, b). Match [a, b]) c) (map (\<lambda>(a, b). Match [a, b]) rest)
      = Match [A, B]"
  proof (rule min_loop_least)
    show "Match [A, B] \<in> set ((\<lambda>(a, b). Match [a, b]) c # map (\<lambda>(a, b). Match [a, b]) rest)"
      using mem ms by force
  next
    fix x
    assume "x \<in> set ((\<lambda>(a, b). Match [a, b]) c # map (\<lambda>(a, b). Match [a, b]) rest)"
    then have "x \<in> (\<lambda>(a, b). Match [a, b]) ` set ms"
      using ms by simp
    then obtain P Q where x: "x = Match [P, Q]" and pq: "(P, Q) \<in> set ms"
      by auto
    from all [OF pq] have s: "sub A P" "sub B Q" by simp_all
    show "\<not> Match_lt sub x (Match [A, B])"
      unfolding x by (rule not_lt_exact(1) [OF anti s])
    assume "x \<noteq> Match [A, B]"
    with x have "(P, Q) \<noteq> (A, B)" by auto
    from lt_exact(1) [OF s this] show "Match_lt sub (Match [A, B]) x"
      unfolding x .
  qed
  then show "py_min (Match_lt sub) (map (\<lambda>(a, b). Match [a, b]) ms) = Inr (Match [A, B])"
    by (simp add: py_min_def ms)
  have "min_loop (Match_lt sub) ((\<lambda>(a, b). Match [b, a]) c) (map (\<lambda>(a, b). Match [b, a]) rest)
      = Match [B, A]"
  proof (rule min_loop_least)
    show "Match [B, A] \<in> set ((\<lambda>(a, b). Match [b, a]) c # map (\<lambda>(a, b). Match [b, a]) rest)"
      using mem ms by force
  next
    fix x
    assume "x \<in> set ((\<lambda>(a, b). Match [b, a]) c # map (\<lambda>(a, b). Match [b, a]) rest)"
    then have "x \<in> (\<lambda>(a, b). Match [b, a]) ` set ms"
      using ms by simp
    then obtain P Q where x: "x = Match [Q, P]" and pq: "(P, Q) \<in> set ms"
      by auto
    from all [OF pq] have s: "sub A P" "sub B Q" by simp_all
    show "\<not> Match_lt sub x (Match [B, A])"
      unfolding x by (rule not_lt_exact(2) [OF anti s])
    assume "x \<noteq> Match [B, A]"
    with x have "(P, Q) \<noteq> (A, B)" by auto
    from lt_exact(2) [OF s this] show "Match_lt sub (Match [B, A]) x"
      unfolding x .
  qed
  then show "py_min (Match_lt sub) (map (\<lambda>(a, b). Match [b, a]) ms) = Inr (Match [B, A])"
    by (simp add: py_min_def ms)
qed

lemma matches_of_iff:
  "(P, Q) \<in> set (matches_of sub REG A B) \<longleftrightarrow> (P, Q) \<in> fst ` set REG \<and> sub A P \<and> sub B Q"
  by (auto simp: matches_of_def)

lemma dispatch_kl_exact:
  assumes refl: "reflp sub" and anti: "antisymp sub"
    and reg: "map_of REG (A, B) = Some f"
  shows "py_min (Match_lt sub) (map (\<lambda>(a, b). Match [a, b]) (matches_of sub REG A B))
           = Inr (Match [A, B])"
    and "py_min (Match_lt sub) (map (\<lambda>(a, b). Match [b, a]) (matches_of sub REG A B))
           = Inr (Match [B, A])"
    and "dispatch_kl sub nm REG A B = (Inr (Handler f), [])"
proof -
  let ?ms = "matches_of sub REG A B"
  from reg have "(A, B) \<in> fst ` set REG"
    by (force dest: map_of_SomeD)
  with refl have mem: "(A, B) \<in> set ?ms"
    by (simp add: matches_of_iff reflpD)
  have all: "\<And>P Q. (P, Q) \<in> set ?ms \<Longrightarrow> sub A P \<and> sub B Q"
    by (simp add: matches_of_iff)
  show l: "py_min (Match_lt sub) (map (\<lambda>(a, b). Match [a, b]) ?ms) = Inr (Match [A, B])"
    by (rule exact_is_min(1) [OF anti mem all])
  show r: "py_min (Match_lt sub) (map (\<lambda>(a, b). Match [b, a]) ?ms) = Inr (Match [B, A])"
    by (rule exact_is_min(2) [OF anti mem all])
  from mem have "?ms \<noteq> []" by auto
  then show "dispatch_kl sub nm REG A B = (Inr (Handler f), [])"
    using l r reg by (simp add: dispatch_kl_def dict_getitem_def)
qed

lemma dispatch_kl_no_match:
  "matches_of sub REG A B = [] \<Longrightarrow> dispatch_kl sub nm REG A B = (Inr NotImplemented, [])"
  by (simp add: dispatch_kl_def)

lemma memo_coherent_initial: "memo_coherent sub nm initial"
  by (simp add: memo_coherent_def initial_def)

lemma memo_coherent_empty: "KL_MEMOIZE s = Map.empty \<Longrightarrow> memo_coherent sub nm s"
  by (simp add: memo_coherent_def)

lemma register_call_cases:
  assumes "register_call sub fmt D x y f s = (r, s')"
  shows "(\<exists>e. r = Inl e \<and> s' = s) \<or>
         (\<exists>key. r = Inr f \<and> register_kl sub fmt D x y = Inr key \<and>
            s' = s\<lparr>KL_REGISTRY := dict_setitem (KL_REGISTRY s) key f, KL_MEMOIZE := Map.empty\<rparr>)"
  using assms by (auto simp: register_call_def decorator_def split: sum.splits)

lemma memo_lookup_result:
  assumes coh: "memo_coherent sub nm s"
    and run: "memo_lookup sub nm tp tq s = (r, ws, s')"
  shows "r = fst (dispatch_kl sub nm (KL_REGISTRY s) tp tq)"
    and "KL_REGISTRY s' = KL_REGISTRY s"
    and "memo_coherent sub nm s'"
proof -
  show "r = fst (dispatch_kl sub nm (KL_REGISTRY s) tp tq)"
    using coh run
    by (auto simp: memo_lookup_def memo_coherent_def split: option.splits prod.splits sum.splits)
  show "KL_REGISTRY s' = KL_REGISTRY s"
    using run by (auto simp: memo_lookup_def split: option.splits prod.splits sum.splits)
  show "memo_coherent sub nm s'"
    using coh run
    by (auto simp: memo_lookup_def memo_coherent_def
        split: option.splits prod.splits sum.splits if_splits)
qed

lemma reachable_invariant:
  "reachable sub nm fmt D s \<Longrightarrow> memo_coherent sub nm s \<and> distinct (map fst (KL_REGISTRY s))"
proof (induction rule: reachable.induct)
  case reachable_initial
  then show ?case by (simp add: memo_coherent_initial) (simp add: initial_def)
next
  case (reachable_register s x y f r s')
  from register_call_cases [OF reachable_register.hyps(2)] reachable_register.IH
  show ?case
    by (auto simp: memo_coherent_empty distinct_dict_setitem)
next
  case (reachable_lookup s tp tq r ws s')
  from memo_lookup_result(2,3) [OF _ reachable_lookup.hyps(2)] reachable_lookup.IH
  show ?case by simp
qed

lemma memo_coherentD:
  "memo_coherent sub nm s \<Longrightarrow> KL_MEMOIZE s (tp, tq) = Some f \<Longrightarrow>
   fst (dispatch_kl sub nm (KL_REGISTRY s) tp tq) = Inr f"
  by (simp add: memo_coherent_def)

lemma check_type_arg_class: "check_type_arg sub fmt D arg (TypeObj t) = Inr t"
  by (simp add: check_type_arg_def isinstance_type_def)

lemma check_type_arg_other:
  "check_type_arg sub fmt D arg NonType = Inl (TypeError ''issubclass() arg 1 must be a class'')"
  by (simp add: check_type_arg_def)

lemma register_call_classes:
  "register_call sub fmt D (TypeObj p) (TypeObj q) f s =
     (Inr f, s\<lparr>KL_REGISTRY := dict_setitem (KL_REGISTRY s) (p, q) f, KL_MEMOIZE := Map.empty\<rparr>)"
  by (simp add: register_call_def register_kl_def check_type_arg_class decorator_def)

lemma register_call_other:
  "register_call sub fmt D NonType y f s =
     (Inl (TypeError ''issubclass() arg 1 must be a class''), s)"
  "register_call sub fmt D (TypeObj p) NonType f s =
     (Inl (TypeError ''issubclass() arg 1 must be a class''), s)"
  by (simp_all add: register_call_def register_kl_def check_type_arg_class check_type_arg_other)

lemma matches_of_keys_cong:
  "map fst REG' = map fst REG \<Longrightarrow> matches_of sub REG' A B = matches_of sub REG A B"
  by (simp add: matches_of_def)

lemma kl_divergence_miss:
  assumes "KL_MEMOIZE s (type_of p, type_of q) = None"
    and "dispatch_kl sub nm (KL_REGISTRY s) (type_of p) (type_of q) = (Inr (Handler f), ws)"
  shows "kl_divergence sub nm type_of invoke p q s =
    (Inr (invoke f p q), ws, s\<lparr>KL_MEMOIZE := (KL_MEMOIZE s)((type_of p, type_of q) \<mapsto> Handler f)\<rparr>)"
  using assms by (simp add: kl_divergence_def memo_lookup_def)

lemma dispatch_kl_left_selection:
  assumes "py_min (Match_lt sub) (map (\<lambda>(a, b). Match [a, b]) (matches_of sub REG A B))
      = Inr (Match [P, Q])"
    and "map_of REG (P, Q) = Some f"
  shows "fst (dispatch_kl sub nm REG A B) = Inr (Handler f)"
proof -
  from assms(1) have "matches_of sub REG A B \<noteq> []"
    by (auto simp: py_min_def)
  from dispatch_kl_selects [OF this, of nm] assms show ?thesis
    by auto
qed

lemma matches_of_new_rule:
  assumes "matches_of sub REG A B = []" and "sub A P" and "sub B Q"
  shows "matches_of sub (dict_setitem REG (P, Q) f) A B = [(P, Q)]"
proof -
  have "(P, Q) \<notin> fst ` set REG"
  proof
    assume "(P, Q) \<in> fst ` set REG"
    with assms(2,3) have "(P, Q) \<in> set (matches_of sub REG A B)"
      by (simp add: matches_of_iff)
    with assms(1) show False by simp
  qed
  then have "map fst (dict_setitem REG (P, Q) f) = map fst REG @ [(P, Q)]"
    by (rule keys_dict_setitem_new)
  then have "matches_of sub (dict_setitem REG (P, Q) f) A B = matches_of sub REG A B @ [(P, Q)]"
    using assms(2,3) by (simp add: matches_of_def)
  with assms(1) show ?thesis by simp
qed

lemma dispatch_kl_single:
  assumes "matches_of sub REG A B = [(P, Q)]" and "map_of REG (P, Q) = Some f"
  shows "dispatch_kl sub nm REG A B = (Inr (Handler f), [])"
  using assms by (simp add: dispatch_kl_def py_min_def dict_getitem_def)

lemma kl_divergence_no_match:
  assumes coh: "memo_coherent sub nm s"
    and none: "matches_of sub (KL_REGISTRY s) (type_of p) (type_of q) = []"
  shows "kl_divergence sub nm type_of invoke p q s =
    (Inl (NotImplementedError ''''), [],
     s\<lparr>KL_MEMOIZE := (KL_MEMOIZE s)((type_of p, type_of q) \<mapsto> NotImplemented)\<rparr>)"
proof (cases "KL_MEMOIZE s (type_of p, type_of q)")
  case None
  with dispatch_kl_no_match [OF none, of nm] show ?thesis
    by (simp add: kl_divergence_def memo_lookup_def)
next
  case (Some r)
  with memo_coherentD [OF coh Some] dispatch_kl_no_match [OF none, of nm]
  have r: "r = NotImplemented"
    by simp
  from Some r have "(KL_MEMOIZE s)((type_of p, type_of q) \<mapsto> NotImplemented) = KL_MEMOIZE s"
    by (simp add: map_upd_triv)
  with Some r show ?thesis
    by (simp add: kl_divergence_def memo_lookup_def)
qed

lemma memo_lookup_again:
  assumes coh: "memo_coherent sub nm s"
    and run: "memo_lookup sub nm tp tq s = (r, ws, s')"
  shows "fst (memo_lookup sub nm tp tq s') = r"
proof -
  from memo_lookup_result [OF coh run]
  have r: "r = fst (dispatch_kl sub nm (KL_REGISTRY s) tp tq)"
    and reg: "KL_REGISTRY s' = KL_REGISTRY s"
    and coh': "memo_coherent sub nm s'"
    by simp_all
  obtain r' ws' s'' where run': "memo_lookup sub nm tp tq s' = (r', ws', s'')"
    by (cases "memo_lookup sub nm tp tq s'") auto
  from memo_lookup_result(1) [OF coh' run'] reg r have "r' = r" by simp
  with run' show ?thesis by simp
qed

lemma memo_lookup_dispatch:
  assumes "memo_coherent sub nm s"
  shows "fst (memo_lookup sub nm tp tq s) = fst (dispatch_kl sub nm (KL_REGISTRY s) tp tq)"
proof -
  obtain r ws s' where run: "memo_lookup sub nm tp tq s = (r, ws, s')"
    by (cases "memo_lookup sub nm tp tq s") auto
  from memo_lookup_result(1) [OF assms run] run show ?thesis
    by simp
qed

lemma kl_divergence_state:
  "snd (snd (kl_divergence sub nm type_of invoke p q s))
     = snd (snd (memo_lookup sub nm (type_of p) (type_of q) s))"
  by (simp add: kl_divergence_def split: prod.splits sum.splits resolution.splits)

lemma kl_divergence_result:
  "fst (kl_divergence sub nm type_of invoke p q s) =
     (case fst (memo_lookup sub nm (type_of p) (type_of q) s) of
        Inl e \<Rightarrow> Inl e
      | Inr NotImplemented \<Rightarrow> Inl (NotImplementedError '''')
      | Inr (Handler f) \<Rightarrow> Inr (invoke f p q))"
  by (simp add: kl_divergence_def split: prod.splits sum.splits resolution.splits)

section \<open>The specificity comparison\<close>

text \<open>
  C2. For two type pairs \<open>(p1, q1)\<close> and \<open>(p2, q2)\<close> the comparison \<open>\<le>\<close> is false when
  \<open>p1\<close> is not a subtype of \<open>p2\<close>; true, whatever the second position holds, when \<open>p1\<close>
  is a subtype of \<open>p2\<close> and not \<open>p2\<close> itself; when the first position holds the same type
  (a subtype of itself) the second position decides in the same way: false when \<open>q1\<close> is
  not a subtype of \<open>q2\<close>, true when it is, strictly or not, the positions being
  exhausted.
\<close>

theorem Match_le_pairs:
  "Match_le sub (Match [p1, q1]) (Match [p2, q2]) =
     (if \<not> sub p1 p2 then False
      else if p1 \<noteq> p2 then True
      else if \<not> sub q1 q2 then False
      else True)"
  by (simp add: Match_le_def)

text \<open>
  The comparison on the crossed pairs of the docstring: a strict subclass in the first
  position decides, whatever the second position holds.
\<close>

theorem Match_le_pairs_witness:
  "Match_le example_issubclass (Match [DerivedP, BaseQ]) (Match [BaseP, DerivedQ]) \<and>
   \<not> Match_le example_issubclass (Match [BaseP, DerivedQ]) (Match [DerivedP, BaseQ]) \<and>
   \<not> Match_le example_issubclass (Match [BaseP, BaseQ]) (Match [BaseP, DerivedQ]) \<and>
   Match_le example_issubclass (Match [BaseP, DerivedQ]) (Match [BaseP, DerivedQ])"
  using Match_le_pairs [of example_issubclass DerivedP BaseQ BaseP DerivedQ]
    Match_le_pairs [of example_issubclass BaseP DerivedQ DerivedP BaseQ]
    Match_le_pairs [of example_issubclass BaseP BaseQ BaseP DerivedQ]
    Match_le_pairs [of example_issubclass BaseP DerivedQ BaseP DerivedQ]
  by (simp add: example_issubclass_def)

section \<open>Resolution\<close>

text \<open>
  C1. For every registry and every query \<open>(A, B)\<close> with a candidate, \<open>_dispatch_kl\<close>
  raises nothing: \<open>min\<close> selects a candidate \<open>(left_p, left_q)\<close> under the left-to-right
  order and a candidate \<open>(right_p, right_q)\<close> under the reversed order, both have a
  handler in the registry, and the handler of the left selection is returned. When the
  two handlers differ exactly one warning is emitted, whose message holds the names of
  \<open>A\<close>, \<open>B\<close>, \<open>left_p\<close> and \<open>right_q\<close>; when they are the same handler there is no
  warning.
\<close>

theorem dispatch_kl_ambiguity:
  assumes "matches_of sub REG A B \<noteq> []"
  shows "\<exists>left_p left_q right_p right_q left_fun right_fun.
    py_min (Match_lt sub) (map (\<lambda>(a, b). Match [a, b]) (matches_of sub REG A B))
      = Inr (Match [left_p, left_q]) \<and>
    py_min (Match_lt sub) (map (\<lambda>(a, b). Match [b, a]) (matches_of sub REG A B))
      = Inr (Match [right_q, right_p]) \<and>
    map_of REG (left_p, left_q) = Some left_fun \<and>
    map_of REG (right_p, right_q) = Some right_fun \<and>
    fst (dispatch_kl sub nm REG A B) = Inr (Handler left_fun) \<and>
    (left_fun \<noteq> right_fun \<longrightarrow>
       snd (dispatch_kl sub nm REG A B)
         = [RuntimeWarning (ambiguous_msg (nm A) (nm B) (nm left_p) (nm right_q))] \<and>
       sublist (nm A) (ambiguous_msg (nm A) (nm B) (nm left_p) (nm right_q)) \<and>
       sublist (nm B) (ambiguous_msg (nm A) (nm B) (nm left_p) (nm right_q)) \<and>
       sublist (nm left_p) (ambiguous_msg (nm A) (nm B) (nm left_p) (nm right_q)) \<and>
       sublist (nm right_q) (ambiguous_msg (nm A) (nm B) (nm left_p) (nm right_q))) \<and>
    (left_fun = right_fun \<longrightarrow> snd (dispatch_kl sub nm REG A B) = [])"
proof -
  from dispatch_kl_selects [OF assms, of nm]
  obtain lp lq rp rq lf rf where
    sel: "py_min (Match_lt sub) (map (\<lambda>(a, b). Match [a, b]) (matches_of sub REG A B))
            = Inr (Match [lp, lq])"
         "py_min (Match_lt sub) (map (\<lambda>(a, b). Match [b, a]) (matches_of sub REG A B))
            = Inr (Match [rq, rp])"
         "map_of REG (lp, lq) = Some lf" "map_of REG (rp, rq) = Some rf"
    and res: "dispatch_kl sub nm REG A B =
         (Inr (Handler lf),
          if lf \<noteq> rf then [RuntimeWarning (ambiguous_msg (nm A) (nm B) (nm lp) (nm rq))] else [])"
    by blast
  from res have "fst (dispatch_kl sub nm REG A B) = Inr (Handler lf)"
    and "lf \<noteq> rf \<longrightarrow> snd (dispatch_kl sub nm REG A B)
           = [RuntimeWarning (ambiguous_msg (nm A) (nm B) (nm lp) (nm rq))]"
    and "lf = rf \<longrightarrow> snd (dispatch_kl sub nm REG A B) = []"
    by simp_all
  with sel ambiguous_msg_names [where a = "nm A" and b = "nm B" and c = "nm lp" and d = "nm rq"] show ?thesis
    by blast
qed

text \<open>
  The two crossed rules of the docstring, queried at \<open>(DerivedP, DerivedQ)\<close>: the left
  selection is the rule \<open>(DerivedP, BaseQ)\<close>, the one more specific in the first argument.
\<close>

theorem dispatch_kl_ambiguity_witness:
  "matches_of example_issubclass (KL_REGISTRY crossed) DerivedP DerivedQ \<noteq> [] \<and>
   dispatch_kl example_issubclass example_name (KL_REGISTRY crossed) DerivedP DerivedQ =
     (Inr (Handler kl_version2),
      [RuntimeWarning ''Ambiguous kl_divergence(DerivedP, DerivedQ). Please register_kl(DerivedP, DerivedQ)''])"
proof -
  have h: "matches_of example_issubclass (KL_REGISTRY crossed) DerivedP DerivedQ \<noteq> []"
    by (simp add: matches_of_def crossed_def example_issubclass_def)
  from dispatch_kl_ambiguity [OF h, of example_name] h show ?thesis
    by (simp add: dispatch_kl_def matches_of_def crossed_def example_issubclass_def py_min_def
        Match_lt_def Match_le_def Match_eq_def dict_getitem_def ambiguous_msg_def)
qed

text \<open>
  C9. When the query pair \<open>(A, B)\<close> is itself a key of the registry, with handler \<open>f\<close>,
  and \<open>issubclass\<close> is reflexive and antisymmetric (as it is on classes), \<open>_dispatch_kl\<close>
  returns \<open>f\<close> and emits no warning: \<open>min\<close> selects \<open>(A, B)\<close> under the left-to-right
  order and under the reversed order.
\<close>

theorem dispatch_kl_exact_pair:
  assumes "reflp sub" and "antisymp sub" and "map_of REG (A, B) = Some f"
  shows "dispatch_kl sub nm REG A B = (Inr (Handler f), []) \<and>
    py_min (Match_lt sub) (map (\<lambda>(a, b). Match [a, b]) (matches_of sub REG A B))
      = Inr (Match [A, B]) \<and>
    py_min (Match_lt sub) (map (\<lambda>(a, b). Match [b, a]) (matches_of sub REG A B))
      = Inr (Match [B, A])"
  using dispatch_kl_exact [OF assms] by simp

theorem dispatch_kl_exact_pair_witness:
  "reflp example_issubclass \<and> antisymp example_issubclass \<and>
   map_of (dict_setitem (KL_REGISTRY crossed) (DerivedP, DerivedQ) kl_version1)
     (DerivedP, DerivedQ) = Some kl_version1 \<and>
   dispatch_kl example_issubclass example_name
     (dict_setitem (KL_REGISTRY crossed) (DerivedP, DerivedQ) kl_version1) DerivedP DerivedQ
     = (Inr (Handler kl_version1), [])"
proof -
  have h: "map_of (dict_setitem (KL_REGISTRY crossed) (DerivedP, DerivedQ) kl_version1)
     (DerivedP, DerivedQ) = Some kl_version1"
    by (simp add: crossed_def)
  from dispatch_kl_exact_pair [OF example_issubclass_refl example_issubclass_antisym h,
      of example_name]
  show ?thesis
    using h example_issubclass_refl example_issubclass_antisym by simp
qed

text \<open>
  C3. With rules for \<open>(Base, Base)\<close> and \<open>(Derived, Base)\<close>, \<open>Derived\<close> a strict subclass of
  \<open>Base\<close>, the query \<open>(Derived, Base)\<close> has both rules as candidates and resolves to the
  handler of \<open>(Derived, Base)\<close>, without a warning; when the two handlers differ, the
  result is not the handler of \<open>(Base, Base)\<close>.
\<close>

theorem dispatch_kl_specificity:
  assumes "reflp sub" and "antisymp sub"
    and "sub Derived Base" and "Derived \<noteq> Base"
    and "map_of REG (Base, Base) = Some g"
    and "map_of REG (Derived, Base) = Some f"
  shows "(Base, Base) \<in> set (matches_of sub REG Derived Base) \<and>
    dispatch_kl sub nm REG Derived Base = (Inr (Handler f), []) \<and>
    (f \<noteq> g \<longrightarrow> fst (dispatch_kl sub nm REG Derived Base) \<noteq> Inr (Handler g))"
proof -
  from assms(5) have "(Base, Base) \<in> fst ` set REG"
    by (force dest: map_of_SomeD)
  with assms(1,3) have "(Base, Base) \<in> set (matches_of sub REG Derived Base)"
    by (simp add: matches_of_iff reflpD)
  moreover have "dispatch_kl sub nm REG Derived Base = (Inr (Handler f), [])"
    by (rule dispatch_kl_exact(3) [OF assms(1,2,6)])
  ultimately show ?thesis by simp
qed

theorem dispatch_kl_specificity_witness:
  "reflp example_issubclass \<and> antisymp example_issubclass \<and>
   example_issubclass DerivedP BaseP \<and> DerivedP \<noteq> BaseP \<and>
   dispatch_kl example_issubclass example_name
     [((BaseP, BaseP), kl_version1), ((DerivedP, BaseP), kl_version2)] DerivedP BaseP
     = (Inr (Handler kl_version2), [])"
proof -
  have s: "example_issubclass DerivedP BaseP" by (simp add: example_issubclass_def)
  have n: "DerivedP \<noteq> BaseP" by simp
  have g: "map_of [((BaseP, BaseP), kl_version1), ((DerivedP, BaseP), kl_version2)] (BaseP, BaseP)
    = Some kl_version1" by simp
  have f: "map_of [((BaseP, BaseP), kl_version1), ((DerivedP, BaseP), kl_version2)] (DerivedP, BaseP)
    = Some kl_version2" by simp
  from dispatch_kl_specificity [OF example_issubclass_refl example_issubclass_antisym s n g f,
      of example_name]
  show ?thesis
    using s example_issubclass_refl example_issubclass_antisym by simp
qed

section \<open>Registration\<close>

text \<open>
  C5. \<open>register_kl\<close> is to fail on an argument that is not a subclass of \<open>Distribution\<close>
  and to leave the registry as it is. The check reads
  \<^verbatim>\<open>not isinstance(type_p, type) and issubclass(type_p, Distribution)\<close>, which
  is false on every class: \<open>int\<close> is no subclass of \<open>Distribution\<close>, and
  \<open>register_kl(int, BaseQ)(kl_version3)\<close> raises nothing and puts the rule into the empty
  registry.
\<close>

theorem register_kl_accepts_non_distribution:
  "\<not> example_issubclass PyInt Distribution \<and>
   register_call example_issubclass example_fmt Distribution (TypeObj PyInt) (TypeObj BaseQ)
       kl_version3 initial =
     (Inr kl_version3,
      \<lparr>KL_REGISTRY = [((PyInt, BaseQ), kl_version3)], KL_MEMOIZE = Map.empty\<rparr>)"
  by (simp add: register_call_classes example_issubclass_def initial_def)

text \<open>
  C6. Registering \<open>f\<close> under the classes \<open>(p, q)\<close> succeeds and leaves a state in which
  the key \<open>(p, q)\<close> holds \<open>f\<close>, every other key holds what it held, the keys are still
  pairwise distinct (one handler per pair) and the memo is empty, whatever was registered
  before. From then on a call of \<open>kl_divergence\<close> on instances of exactly \<open>(p, q)\<close> calls
  \<open>f\<close>, and so does every call whose left-to-right selection is the rule \<open>(p, q)\<close>;
  re-registering a key changes the candidates of no query, so the queries that were
  resolved through the rule \<open>(p, q)\<close> still are. (\<open>issubclass\<close> reflexive and antisymmetric,
  the keys of the registry distinct, as in every dictionary.)
\<close>

theorem register_call_overrides:
  assumes dist: "distinct (map fst (KL_REGISTRY s))"
    and refl: "reflp sub" and anti: "antisymp sub"
  shows "\<exists>s'. register_call sub fmt D (TypeObj p) (TypeObj q) f s = (Inr f, s') \<and>
    map_of (KL_REGISTRY s') (p, q) = Some f \<and>
    (\<forall>k. k \<noteq> (p, q) \<longrightarrow> map_of (KL_REGISTRY s') k = map_of (KL_REGISTRY s) k) \<and>
    distinct (map fst (KL_REGISTRY s')) \<and>
    KL_MEMOIZE s' = Map.empty \<and>
    (\<forall>x y. type_of x = p \<and> type_of y = q \<longrightarrow>
       fst (kl_divergence sub nm type_of invoke x y s') = Inr (invoke f x y)) \<and>
    (\<forall>x y. py_min (Match_lt sub)
         (map (\<lambda>(a, b). Match [a, b]) (matches_of sub (KL_REGISTRY s') (type_of x) (type_of y)))
         = Inr (Match [p, q]) \<longrightarrow>
       fst (kl_divergence sub nm type_of invoke x y s') = Inr (invoke f x y)) \<and>
    ((p, q) \<in> fst ` set (KL_REGISTRY s) \<longrightarrow>
       (\<forall>A B. matches_of sub (KL_REGISTRY s') A B = matches_of sub (KL_REGISTRY s) A B))"
proof -
  let ?s = "s\<lparr>KL_REGISTRY := dict_setitem (KL_REGISTRY s) (p, q) f, KL_MEMOIZE := Map.empty\<rparr>"
  have run: "register_call sub fmt D (TypeObj p) (TypeObj q) f s = (Inr f, ?s)"
    by (rule register_call_classes)
  have look: "map_of (KL_REGISTRY ?s) (p, q) = Some f"
    by (simp add: map_of_dict_setitem)
  have other: "\<forall>k. k \<noteq> (p, q) \<longrightarrow> map_of (KL_REGISTRY ?s) k = map_of (KL_REGISTRY s) k"
    by (simp add: map_of_dict_setitem)
  have d: "distinct (map fst (KL_REGISTRY ?s))"
    using dist by (simp add: distinct_dict_setitem)
  have memo: "KL_MEMOIZE ?s = Map.empty" by simp
  have sel: "fst (kl_divergence sub nm type_of invoke x y ?s) = Inr (invoke f x y)"
    if "py_min (Match_lt sub)
         (map (\<lambda>(a, b). Match [a, b]) (matches_of sub (KL_REGISTRY ?s) (type_of x) (type_of y)))
         = Inr (Match [p, q])" for x y
  proof -
    from dispatch_kl_left_selection [OF that look, of nm]
    obtain ws where "dispatch_kl sub nm (KL_REGISTRY ?s) (type_of x) (type_of y)
        = (Inr (Handler f), ws)"
      by (cases "dispatch_kl sub nm (KL_REGISTRY ?s) (type_of x) (type_of y)") auto
    from kl_divergence_miss [where type_of = type_of and p = x and q = y and invoke = invoke,
        OF _ this]
    show ?thesis by simp
  qed
  have exact: "fst (kl_divergence sub nm type_of invoke x y ?s) = Inr (invoke f x y)"
    if "type_of x = p \<and> type_of y = q" for x y
  proof -
    from dispatch_kl_exact(1) [OF refl anti look] that
    show ?thesis by (intro sel) simp
  qed
  have keys: "(p, q) \<in> fst ` set (KL_REGISTRY s) \<longrightarrow>
       (\<forall>A B. matches_of sub (KL_REGISTRY ?s) A B = matches_of sub (KL_REGISTRY s) A B)"
  proof (intro impI allI)
    fix A B
    assume "(p, q) \<in> fst ` set (KL_REGISTRY s)"
    then have "map fst (KL_REGISTRY ?s) = map fst (KL_REGISTRY s)"
      by (simp add: keys_dict_setitem_old)
    then show "matches_of sub (KL_REGISTRY ?s) A B = matches_of sub (KL_REGISTRY s) A B"
      by (rule matches_of_keys_cong)
  qed
  from sel have sel': "\<forall>x y. py_min (Match_lt sub)
         (map (\<lambda>(a, b). Match [a, b]) (matches_of sub (KL_REGISTRY ?s) (type_of x) (type_of y)))
         = Inr (Match [p, q]) \<longrightarrow>
       fst (kl_divergence sub nm type_of invoke x y ?s) = Inr (invoke f x y)"
    by blast
  from exact have exact': "\<forall>x y. type_of x = p \<and> type_of y = q \<longrightarrow>
       fst (kl_divergence sub nm type_of invoke x y ?s) = Inr (invoke f x y)"
    by blast
  show ?thesis
    by (rule exI [of _ ?s]) (intro conjI run look other d memo exact' sel' keys)
qed

theorem register_call_overrides_witness:
  "distinct (map fst (KL_REGISTRY crossed)) \<and>
   reflp example_issubclass \<and> antisymp example_issubclass \<and>
   register_call example_issubclass example_fmt Distribution (TypeObj BaseP) (TypeObj DerivedQ)
       kl_version3 crossed =
     (Inr kl_version3,
      \<lparr>KL_REGISTRY = [((BaseP, DerivedQ), kl_version3), ((DerivedP, BaseQ), kl_version2)],
       KL_MEMOIZE = Map.empty\<rparr>) \<and>
   fst (kl_divergence example_issubclass example_name example_type example_invoke
          (Inst BaseP) (Inst DerivedQ)
          \<lparr>KL_REGISTRY = [((BaseP, DerivedQ), kl_version3), ((DerivedP, BaseQ), kl_version2)],
           KL_MEMOIZE = Map.empty\<rparr>)
     = Inr (kl_version3, Inst BaseP, Inst DerivedQ)"
proof -
  have d: "distinct (map fst (KL_REGISTRY crossed))"
    by (simp add: crossed_def)
  from register_call_overrides [where s = crossed and sub = example_issubclass
      and fmt = example_fmt and D = Distribution and p = BaseP and q = DerivedQ
      and f = kl_version3 and type_of = example_type and nm = example_name
      and invoke = example_invoke,
      OF d example_issubclass_refl example_issubclass_antisym]
  obtain s' where
    run: "register_call example_issubclass example_fmt Distribution (TypeObj BaseP)
            (TypeObj DerivedQ) kl_version3 crossed = (Inr kl_version3, s')"
    and call: "\<forall>x y. example_type x = BaseP \<and> example_type y = DerivedQ \<longrightarrow>
       fst (kl_divergence example_issubclass example_name example_type example_invoke x y s')
         = Inr (example_invoke kl_version3 x y)"
    by blast
  from run have s': "s' =
      \<lparr>KL_REGISTRY = [((BaseP, DerivedQ), kl_version3), ((DerivedP, BaseQ), kl_version2)],
       KL_MEMOIZE = Map.empty\<rparr>"
    by (simp add: register_call_classes crossed_def)
  from call have "fst (kl_divergence example_issubclass example_name example_type example_invoke
      (Inst BaseP) (Inst DerivedQ) s') = Inr (example_invoke kl_version3 (Inst BaseP) (Inst DerivedQ))"
    by simp
  with run s' d example_issubclass_refl example_issubclass_antisym show ?thesis
    by (simp add: example_invoke_def)
qed

section \<open>The facade\<close>

text \<open>
  C4, as stated: on a pair without candidates \<open>kl_divergence\<close> fails with a
  \<open>NotImplementedError\<close> that names the two types. The exception is raised without
  arguments: its message is empty and holds neither name.
\<close>

theorem kl_divergence_unnamed_counterexample:
  "matches_of example_issubclass (KL_REGISTRY crossed) BaseP BaseQ = [] \<and>
   fst (kl_divergence example_issubclass example_name example_type example_invoke
          (Inst BaseP) (Inst BaseQ) crossed) = Inl (NotImplementedError '''') \<and>
   \<not> sublist (example_name BaseP) '''' \<and> \<not> sublist (example_name BaseQ) ''''"
  by (simp add: kl_divergence_def memo_lookup_def dispatch_kl_def matches_of_def crossed_def
      example_issubclass_def)

text \<open>
  C4, amended. In a state whose memo is coherent with the registry, on a pair of instances
  whose types have no candidate, \<open>kl_divergence\<close> raises \<open>NotImplementedError\<close> without a
  message, calls no handler, emits no warning and leaves \<open>NotImplemented\<close> in the memo
  under the pair of types.
\<close>

theorem kl_divergence_unresolved:
  assumes "memo_coherent sub nm s"
    and "matches_of sub (KL_REGISTRY s) (type_of p) (type_of q) = []"
  shows "kl_divergence sub nm type_of invoke p q s =
    (Inl (NotImplementedError ''''), [],
     s\<lparr>KL_MEMOIZE := (KL_MEMOIZE s)((type_of p, type_of q) \<mapsto> NotImplemented)\<rparr>)"
  using assms by (rule kl_divergence_no_match)

theorem kl_divergence_unresolved_witness:
  "memo_coherent example_issubclass example_name crossed \<and>
   matches_of example_issubclass (KL_REGISTRY crossed) (example_type (Inst BaseP))
     (example_type (Inst BaseQ)) = [] \<and>
   kl_divergence example_issubclass example_name example_type example_invoke
       (Inst BaseP) (Inst BaseQ) crossed =
     (Inl (NotImplementedError ''''), [],
      crossed\<lparr>KL_MEMOIZE := [(BaseP, BaseQ) \<mapsto> NotImplemented]\<rparr>)"
proof -
  have c: "memo_coherent example_issubclass example_name crossed"
    by (rule memo_coherent_empty) (simp add: crossed_def)
  have m: "matches_of example_issubclass (KL_REGISTRY crossed) (example_type (Inst BaseP))
     (example_type (Inst BaseQ)) = []"
    by (simp add: matches_of_def crossed_def example_issubclass_def)
  from kl_divergence_unresolved [where type_of = example_type and p = "Inst BaseP"
      and q = "Inst BaseQ" and invoke = example_invoke, OF c m] c m
  show ?thesis
    by (simp add: crossed_def)
qed

text \<open>
  C7. In a coherent state, a call of \<open>kl_divergence\<close> on instances whose types have no
  candidate fails and leaves the marker \<open>NotImplemented\<close> in the memo under the pair of
  types. Any registration after it empties the memo, so the marker is gone; after the
  registration of a rule \<open>(P, Q)\<close> that the pair matches, the same call finds no memo entry,
  resolves to the new handler \<open>f\<close> without a warning and returns \<open>f(p, q)\<close>.
\<close>

theorem unresolved_then_registered:
  assumes coh: "memo_coherent sub nm s"
    and none: "matches_of sub (KL_REGISTRY s) (type_of p) (type_of q) = []"
    and subs: "sub (type_of p) P" "sub (type_of q) Q"
    and run1: "kl_divergence sub nm type_of invoke p q s = (r1, w1, s1)"
    and run2: "register_call sub fmt D (TypeObj P) (TypeObj Q) f s1 = (r2, s2)"
  shows "r1 = Inl (NotImplementedError '''') \<and>
    KL_MEMOIZE s1 (type_of p, type_of q) = Some NotImplemented \<and>
    (\<forall>P' Q' f'. KL_MEMOIZE (snd (register_call sub fmt D (TypeObj P') (TypeObj Q') f' s1))
        (type_of p, type_of q) = None) \<and>
    r2 = Inr f \<and>
    KL_MEMOIZE s2 (type_of p, type_of q) = None \<and>
    kl_divergence sub nm type_of invoke p q s2 =
      (Inr (invoke f p q), [],
       s2\<lparr>KL_MEMOIZE := (KL_MEMOIZE s2)((type_of p, type_of q) \<mapsto> Handler f)\<rparr>)"
proof -
  let ?k = "(type_of p, type_of q)"
  from kl_divergence_no_match [where type_of = type_of and p = p and q = q and invoke = invoke,
      OF coh none] run1
  have r1: "r1 = Inl (NotImplementedError '''')"
    and s1: "s1 = s\<lparr>KL_MEMOIZE := (KL_MEMOIZE s)(?k \<mapsto> NotImplemented)\<rparr>"
    by simp_all
  from s1 have marker: "KL_MEMOIZE s1 ?k = Some NotImplemented" by simp
  have cleared: "\<forall>P' Q' f'.
      KL_MEMOIZE (snd (register_call sub fmt D (TypeObj P') (TypeObj Q') f' s1)) ?k = None"
    by (simp add: register_call_classes)
  from run2 have r2: "r2 = Inr f"
    and s2: "s2 = s1\<lparr>KL_REGISTRY := dict_setitem (KL_REGISTRY s1) (P, Q) f, KL_MEMOIZE := Map.empty\<rparr>"
    by (simp_all add: register_call_classes)
  from s2 have miss: "KL_MEMOIZE s2 ?k = None" by simp
  from s1 s2 have reg2: "KL_REGISTRY s2 = dict_setitem (KL_REGISTRY s) (P, Q) f" by simp
  have "matches_of sub (KL_REGISTRY s2) (type_of p) (type_of q) = [(P, Q)]"
    unfolding reg2 by (rule matches_of_new_rule [OF none subs])
  moreover have "map_of (KL_REGISTRY s2) (P, Q) = Some f"
    unfolding reg2 by (simp add: map_of_dict_setitem)
  ultimately have "dispatch_kl sub nm (KL_REGISTRY s2) (type_of p) (type_of q)
      = (Inr (Handler f), [])"
    by (rule dispatch_kl_single)
  from kl_divergence_miss [where type_of = type_of and p = p and q = q and invoke = invoke,
      OF miss this]
  have "kl_divergence sub nm type_of invoke p q s2 =
      (Inr (invoke f p q), [], s2\<lparr>KL_MEMOIZE := (KL_MEMOIZE s2)(?k \<mapsto> Handler f)\<rparr>)" .
  with r1 marker cleared r2 miss show ?thesis
    by (intro conjI)
qed

theorem unresolved_then_registered_witness:
  "memo_coherent example_issubclass example_name crossed \<and>
   matches_of example_issubclass (KL_REGISTRY crossed) (example_type (Inst BaseP))
     (example_type (Inst BaseQ)) = [] \<and>
   example_issubclass (example_type (Inst BaseP)) BaseP \<and>
   example_issubclass (example_type (Inst BaseQ)) BaseQ \<and>
   kl_divergence example_issubclass example_name example_type example_invoke
       (Inst BaseP) (Inst BaseQ) crossed =
     (Inl (NotImplementedError ''''), [],
      crossed\<lparr>KL_MEMOIZE := [(BaseP, BaseQ) \<mapsto> NotImplemented]\<rparr>) \<and>
   register_call example_issubclass example_fmt Distribution (TypeObj BaseP) (TypeObj BaseQ)
       kl_version3 (crossed\<lparr>KL_MEMOIZE := [(BaseP, BaseQ) \<mapsto> NotImplemented]\<rparr>) =
     (Inr kl_version3,
      \<lparr>KL_REGISTRY = [((BaseP, DerivedQ), kl_version1), ((DerivedP, BaseQ), kl_version2),
                      ((BaseP, BaseQ), kl_version3)],
       KL_MEMOIZE = Map.empty\<rparr>) \<and>
   kl_divergence example_issubclass example_name example_type example_invoke
       (Inst BaseP) (Inst BaseQ)
       \<lparr>KL_REGISTRY = [((BaseP, DerivedQ), kl_version1), ((DerivedP, BaseQ), kl_version2),
                       ((BaseP, BaseQ), kl_version3)],
        KL_MEMOIZE = Map.empty\<rparr> =
     (Inr (kl_version3, Inst BaseP, Inst BaseQ), [],
      \<lparr>KL_REGISTRY = [((BaseP, DerivedQ), kl_version1), ((DerivedP, BaseQ), kl_version2),
                      ((BaseP, BaseQ), kl_version3)],
       KL_MEMOIZE = [(BaseP, BaseQ) \<mapsto> Handler kl_version3]\<rparr>)"
proof -
  let ?s1 = "crossed\<lparr>KL_MEMOIZE := [(BaseP, BaseQ) \<mapsto> NotImplemented]\<rparr>"
  let ?s2 = "\<lparr>KL_REGISTRY = [((BaseP, DerivedQ), kl_version1), ((DerivedP, BaseQ), kl_version2),
                      ((BaseP, BaseQ), kl_version3)],
       KL_MEMOIZE = Map.empty\<rparr> :: (cls, handler) engine"
  have c: "memo_coherent example_issubclass example_name crossed"
    by (rule memo_coherent_empty) (simp add: crossed_def)
  have m: "matches_of example_issubclass (KL_REGISTRY crossed) (example_type (Inst BaseP))
     (example_type (Inst BaseQ)) = []"
    by (simp add: matches_of_def crossed_def example_issubclass_def)
  have sp: "example_issubclass (example_type (Inst BaseP)) BaseP"
    and sq: "example_issubclass (example_type (Inst BaseQ)) BaseQ"
    by (simp_all add: example_issubclass_def)
  have run1: "kl_divergence example_issubclass example_name example_type example_invoke
       (Inst BaseP) (Inst BaseQ) crossed = (Inl (NotImplementedError ''''), [], ?s1)"
    by (simp add: kl_divergence_def memo_lookup_def dispatch_kl_def matches_of_def crossed_def
        example_issubclass_def)
  have run2: "register_call example_issubclass example_fmt Distribution (TypeObj BaseP)
       (TypeObj BaseQ) kl_version3 ?s1 = (Inr kl_version3, ?s2)"
    by (simp add: register_call_classes crossed_def)
  from unresolved_then_registered [where type_of = example_type and p = "Inst BaseP"
      and q = "Inst BaseQ" and invoke = example_invoke, OF c m sp sq run1 run2]
  have "kl_divergence example_issubclass example_name example_type example_invoke
       (Inst BaseP) (Inst BaseQ) ?s2 =
     (Inr (example_invoke kl_version3 (Inst BaseP) (Inst BaseQ)), [],
      ?s2\<lparr>KL_MEMOIZE := (KL_MEMOIZE ?s2)((example_type (Inst BaseP), example_type (Inst BaseQ))
         \<mapsto> Handler kl_version3)\<rparr>)"
    by simp
  with c m sp sq run1 run2 show ?thesis
    by (simp add: example_invoke_def)
qed

text \<open>
  C8. In a coherent state the handler that \<open>kl_divergence\<close> resolves for a pair of types is
  the result of \<open>_dispatch_kl\<close> on the registry, whether the memo holds the pair or not. The
  call leaves the registry as it is and the state coherent, so a later call on instances
  of the same two types resolves to the same handler, and the same call returns the same
  result.
\<close>

theorem kl_divergence_deterministic:
  assumes coh: "memo_coherent sub nm s"
    and run: "kl_divergence sub nm type_of invoke p q s = (r, ws, s')"
    and same: "type_of p' = type_of p" "type_of q' = type_of q"
  shows "fst (memo_lookup sub nm (type_of p) (type_of q) s)
      = fst (dispatch_kl sub nm (KL_REGISTRY s) (type_of p) (type_of q)) \<and>
    KL_REGISTRY s' = KL_REGISTRY s \<and>
    memo_coherent sub nm s' \<and>
    fst (memo_lookup sub nm (type_of p') (type_of q') s')
      = fst (memo_lookup sub nm (type_of p) (type_of q) s) \<and>
    fst (kl_divergence sub nm type_of invoke p q s') = r \<and>
    (\<forall>t. memo_coherent sub nm t \<and> KL_REGISTRY t = KL_REGISTRY s \<longrightarrow>
       fst (memo_lookup sub nm (type_of p') (type_of q') t)
         = fst (memo_lookup sub nm (type_of p) (type_of q) s))"
proof -
  obtain r0 ws0 s0 where look: "memo_lookup sub nm (type_of p) (type_of q) s = (r0, ws0, s0)"
    by (cases "memo_lookup sub nm (type_of p) (type_of q) s") auto
  from kl_divergence_state [of sub nm type_of invoke p q s] run look have s0: "s0 = s'"
    by simp
  from memo_lookup_result [OF coh look] s0
  have r0: "r0 = fst (dispatch_kl sub nm (KL_REGISTRY s) (type_of p) (type_of q))"
    and reg: "KL_REGISTRY s' = KL_REGISTRY s"
    and coh': "memo_coherent sub nm s'"
    by simp_all
  from memo_lookup_again [OF coh look] s0
  have again: "fst (memo_lookup sub nm (type_of p) (type_of q) s') = r0"
    by simp
  from kl_divergence_result [of sub nm type_of invoke p q s] run look
  have "r = (case r0 of Inl e \<Rightarrow> Inl e | Inr NotImplemented \<Rightarrow> Inl (NotImplementedError '''')
      | Inr (Handler f) \<Rightarrow> Inr (invoke f p q))"
    by simp
  with kl_divergence_result [of sub nm type_of invoke p q s'] again
  have "fst (kl_divergence sub nm type_of invoke p q s') = r"
    by simp
  moreover have "\<forall>t. memo_coherent sub nm t \<and> KL_REGISTRY t = KL_REGISTRY s \<longrightarrow>
       fst (memo_lookup sub nm (type_of p') (type_of q') t)
         = fst (memo_lookup sub nm (type_of p) (type_of q) s)"
    using look r0 same by (simp add: memo_lookup_dispatch)
  ultimately show ?thesis
    using look r0 reg coh' again same by simp
qed

theorem kl_divergence_deterministic_witness:
  "memo_coherent example_issubclass example_name crossed \<and>
   kl_divergence example_issubclass example_name example_type example_invoke
       (Inst DerivedP) (Inst DerivedQ) crossed =
     (Inr (kl_version2, Inst DerivedP, Inst DerivedQ),
      [RuntimeWarning ''Ambiguous kl_divergence(DerivedP, DerivedQ). Please register_kl(DerivedP, DerivedQ)''],
      crossed\<lparr>KL_MEMOIZE := [(DerivedP, DerivedQ) \<mapsto> Handler kl_version2]\<rparr>) \<and>
   fst (kl_divergence example_issubclass example_name example_type example_invoke
       (Inst DerivedP) (Inst DerivedQ)
       (crossed\<lparr>KL_MEMOIZE := [(DerivedP, DerivedQ) \<mapsto> Handler kl_version2]\<rparr>))
     = Inr (kl_version2, Inst DerivedP, Inst DerivedQ)"
proof -
  have c: "memo_coherent example_issubclass example_name crossed"
    by (rule memo_coherent_empty) (simp add: crossed_def)
  have run: "kl_divergence example_issubclass example_name example_type example_invoke
       (Inst DerivedP) (Inst DerivedQ) crossed =
     (Inr (kl_version2, Inst DerivedP, Inst DerivedQ),
      [RuntimeWarning ''Ambiguous kl_divergence(DerivedP, DerivedQ). Please register_kl(DerivedP, DerivedQ)''],
      crossed\<lparr>KL_MEMOIZE := [(DerivedP, DerivedQ) \<mapsto> Handler kl_version2]\<rparr>)"
    by (simp add: kl_divergence_def memo_lookup_def dispatch_kl_def matches_of_def crossed_def
        example_issubclass_def py_min_def Match_lt_def Match_le_def Match_eq_def
        dict_getitem_def ambiguous_msg_def example_invoke_def)
  from kl_divergence_deterministic [where type_of = example_type and p = "Inst DerivedP"
      and q = "Inst DerivedQ" and p' = "Inst DerivedP" and q' = "Inst DerivedQ"
      and invoke = example_invoke, OF c run refl refl]
  have "fst (kl_divergence example_issubclass example_name example_type example_invoke
       (Inst DerivedP) (Inst DerivedQ)
       (crossed\<lparr>KL_MEMOIZE := [(DerivedP, DerivedQ) \<mapsto> Handler kl_version2]\<rparr>))
     = Inr (kl_version2, Inst DerivedP, Inst DerivedQ)"
    by simp
  with c run show ?thesis by simp
qed

text \<open>
  C10. A call of \<open>kl_divergence\<close>, failing or not, leaves the registry as it is and every
  memo entry under another key as it is: the state is unchanged, or the memo had no entry
  for the pair of runtime types and gains the result of \<open>_dispatch_kl\<close> under that key.
  (Handlers are the catalogue's numeric functions; they do not touch the two
  dictionaries.)
\<close>

theorem kl_divergence_frame:
  assumes run: "kl_divergence sub nm type_of invoke p q s = (r, ws, s')"
  shows "KL_REGISTRY s' = KL_REGISTRY s \<and>
    (\<forall>k. k \<noteq> (type_of p, type_of q) \<longrightarrow> KL_MEMOIZE s' k = KL_MEMOIZE s k) \<and>
    (s' = s \<or>
     KL_MEMOIZE s (type_of p, type_of q) = None \<and>
     (\<exists>f. fst (dispatch_kl sub nm (KL_REGISTRY s) (type_of p) (type_of q)) = Inr f \<and>
          s' = s\<lparr>KL_MEMOIZE := (KL_MEMOIZE s)((type_of p, type_of q) \<mapsto> f)\<rparr>))"
proof -
  from kl_divergence_state [of sub nm type_of invoke p q s] run
  have s': "s' = snd (snd (memo_lookup sub nm (type_of p) (type_of q) s))"
    by simp
  show ?thesis
  proof (cases "KL_MEMOIZE s (type_of p, type_of q)")
    case (Some f)
    with s' have "s' = s" by (simp add: memo_lookup_def)
    then show ?thesis by simp
  next
    case None
    show ?thesis
    proof (cases "dispatch_kl sub nm (KL_REGISTRY s) (type_of p) (type_of q)")
      case (Pair d ws')
      show ?thesis
      proof (cases d)
        case (Inl e)
        with None Pair s' have "s' = s" by (simp add: memo_lookup_def)
        then show ?thesis by simp
      next
        case (Inr f)
        with None Pair s'
        have "s' = s\<lparr>KL_MEMOIZE := (KL_MEMOIZE s)((type_of p, type_of q) \<mapsto> f)\<rparr>"
          by (simp add: memo_lookup_def)
        with None Pair Inr show ?thesis by simp
      qed
    qed
  qed
qed

theorem kl_divergence_frame_witness:
  "kl_divergence example_issubclass example_name example_type example_invoke
       (Inst BaseP) (Inst DerivedQ) crossed =
     (Inr (kl_version1, Inst BaseP, Inst DerivedQ), [],
      crossed\<lparr>KL_MEMOIZE := [(BaseP, DerivedQ) \<mapsto> Handler kl_version1]\<rparr>) \<and>
   KL_REGISTRY (crossed\<lparr>KL_MEMOIZE := [(BaseP, DerivedQ) \<mapsto> Handler kl_version1]\<rparr>)
     = KL_REGISTRY crossed \<and>
   KL_MEMOIZE (crossed\<lparr>KL_MEMOIZE := [(BaseP, DerivedQ) \<mapsto> Handler kl_version1]\<rparr>)
       (DerivedP, BaseQ) = KL_MEMOIZE crossed (DerivedP, BaseQ)"
proof -
  have run: "kl_divergence example_issubclass example_name example_type example_invoke
       (Inst BaseP) (Inst DerivedQ) crossed =
     (Inr (kl_version1, Inst BaseP, Inst DerivedQ), [],
      crossed\<lparr>KL_MEMOIZE := [(BaseP, DerivedQ) \<mapsto> Handler kl_version1]\<rparr>)"
    by (simp add: kl_divergence_def memo_lookup_def dispatch_kl_def matches_of_def crossed_def
        example_issubclass_def py_min_def Match_lt_def Match_le_def Match_eq_def
        dict_getitem_def ambiguous_msg_def example_invoke_def)
  from kl_divergence_frame [OF run] run show ?thesis
    by simp
qed

end
